theory Spec2Isabelle
  imports
    Complex_Main
    "HOL-Library.Char_ord"
    "HOL-Library.List_Lexorder"
    "HOL-Library.Product_Lexorder"
    "HOL-Library.Sublist"
begin

section \<open>Used car analysis: the data pipeline of \<^verbatim>\<open>cars_streamlit.py\<close>\<close>

text \<open>
  The script loads a table of used-car listings, derives a brand and a model from the
  free-text name, joins the listings with a fixed table of city coordinates, and
  computes grouped average prices: per city for the map, and per city inside the
  brand/model/year selection for the bar chart of the five dearest cities.

  A data frame is modelled as the list of its rows, in row order. A missing value
  (pandas \<^verbatim>\<open>NaN\<close>, Python \<^verbatim>\<open>None\<close>) is \<open>None\<close>. Prices, averages and coordinates are
  exact rationals: the arithmetic of the script is carried out without the rounding
  error of 64-bit floats. Characters are the code points below 256. The pandas
  operations \<^verbatim>\<open>str.split\<close>, \<^verbatim>\<open>str.get\<close>, \<^verbatim>\<open>merge\<close>, \<^verbatim>\<open>groupby\<close>, \<^verbatim>\<open>mean\<close>, \<^verbatim>\<open>unique\<close>,
  \<^verbatim>\<open>round\<close>, \<^verbatim>\<open>astype(str)\<close> and \<^verbatim>\<open>nlargest\<close> follow their documented behaviour.
\<close>

subsection \<open>Rows\<close>

text \<open>
  \<^verbatim>\<open>df_avg_price_by_city\<close> (lines 56-61), the table behind the map: one row for each
  group of the \<^verbatim>\<open>groupby\<close>.
\<close>

record city_avg =
  Location :: string
  Latitude :: rat
  Longitude :: rat
  Average_Price :: "rat option"
  Price_in_thousands :: "rat option"
  Price :: string

text \<open>\<^verbatim>\<open>df_avg_price_by_city_new\<close> (lines 100-105), the table behind the bar chart.\<close>

record city_avg_new =
  Location :: string
  Average_Price :: "rat option"
  Formatted_Price :: "rat option"
  Price_K :: string

text \<open>
  The columns of \<^verbatim>\<open>used_cars_data.csv\<close> that the script reads. From here on the
  unqualified column names \<open>Location\<close> and \<open>Price\<close> are those of the listings; the
  columns of the two tables above are written with the name of their table.
\<close>

record listing =
  Name :: string
  Location :: string
  Year :: int
  Price :: rat

text \<open>\<^verbatim>\<open>cars_df\<close> after lines 36-37: the columns \<^verbatim>\<open>Brand\<close> and \<^verbatim>\<open>Model\<close> are added.\<close>

record car = listing +
  Brand :: "string option"
  Model :: "string option"

text \<open>\<^verbatim>\<open>df_cars\<close> after the merge of line 53: the coordinates are added.\<close>

record car_geo = car +
  Latitude :: "rat option"
  Longitude :: "rat option"

subsection \<open>Brand and model from the name (lines 36-37)\<close>

text \<open>The characters Python's \<^verbatim>\<open>str.split()\<close> treats as whitespace, below code point 256.\<close>

definition isspace :: "char \<Rightarrow> bool" where
  "isspace c = (of_char c \<in> {9, 10, 11, 12, 13, 28, 29, 30, 31, 32, 133, 160 :: nat})"

text \<open>
  \<^verbatim>\<open>str.split()\<close> without a separator: runs of whitespace separate the tokens, and
  leading and trailing whitespace produce no empty token. \<open>cur\<close> is the token being
  read.
\<close>

fun split_from :: "string \<Rightarrow> string \<Rightarrow> string list" where
  "split_from cur [] = (if cur = [] then [] else [cur])"
| "split_from cur (c # cs) =
     (if isspace c then (if cur = [] then split_from [] cs else cur # split_from [] cs)
      else split_from (cur @ [c]) cs)"

definition str_split :: "string \<Rightarrow> string list" where
  "str_split s = split_from [] s"

text \<open>\<^verbatim>\<open>.str.get(i)\<close>: the element at position \<open>i\<close>, or \<^verbatim>\<open>NaN\<close> when there is none.\<close>

definition str_get :: "string list \<Rightarrow> nat \<Rightarrow> string option" where
  "str_get ts i = (if i < length ts then Some (ts ! i) else None)"

text \<open>\<^verbatim>\<open>+\<close> on string columns: a missing operand makes the result missing.\<close>

fun str_add :: "string option \<Rightarrow> string option \<Rightarrow> string option" where
  "str_add (Some a) (Some b) = Some (a @ b)"
| "str_add _ _ = None"

definition brand_of :: "string \<Rightarrow> string option" where
  "brand_of n = str_get (str_split n) 0"

definition model_of :: "string \<Rightarrow> string option" where
  "model_of n =
     str_add (str_add (str_get (str_split n) 1) (Some '' '')) (str_get (str_split n) 2)"

definition add_brand_model :: "listing \<Rightarrow> car" where
  "add_brand_model l =
     \<lparr>Name = Name l, Location = Location l, Year = Year l, Price = Price l,
      Brand = brand_of (Name l), Model = model_of (Name l)\<rparr>"

definition cars_df :: "listing list \<Rightarrow> car list" where
  "cars_df raw = map add_brand_model raw"

subsection \<open>The join with the city coordinates (lines 44-53)\<close>

definition data_cordinates :: "(string \<times> rat \<times> rat) list" where
  "data_cordinates =
     [(''Mumbai'', 19.0760, 72.8777), (''Pune'', 18.5204, 73.8567),
      (''Chennai'', 13.0827, 80.2707), (''Coimbatore'', 11.0168, 76.9558),
      (''Hyderabad'', 17.3850, 78.4867), (''Jaipur'', 26.9124, 75.7873),
      (''Kochi'', 9.9312, 76.2673), (''Kolkata'', 22.5726, 88.3639),
      (''Delhi'', 28.6139, 77.2090), (''Bangalore'', 12.9716, 77.5946),
      (''Ahmedabad'', 23.0225, 72.5714)]"

definition with_coordinates :: "car \<Rightarrow> rat option \<Rightarrow> rat option \<Rightarrow> car_geo" where
  "with_coordinates c la lo =
     \<lparr>Name = Name c, Location = Location c, Year = Year c, Price = Price c,
      Brand = Brand c, Model = Model c, Latitude = la, Longitude = lo\<rparr>"

text \<open>
  \<^verbatim>\<open>pd.merge(left, right, on='Location', how='left')\<close>: the rows of the left table in
  their order, each once for every row of the right table with the same location, and
  once with missing coordinates when there is none.
\<close>

definition merge_left :: "car list \<Rightarrow> (string \<times> rat \<times> rat) list \<Rightarrow> car_geo list" where
  "merge_left left right =
     concat (map (\<lambda>c.
       case filter (\<lambda>(loc, la, lo). loc = Location c) right of
         [] \<Rightarrow> [with_coordinates c None None]
       | ms \<Rightarrow> map (\<lambda>(loc, la, lo). with_coordinates c (Some la) (Some lo)) ms) left)"

definition df_cars :: "listing list \<Rightarrow> car_geo list" where
  "df_cars raw = merge_left (cars_df raw) data_cordinates"

subsection \<open>Grouped averages\<close>

text \<open>\<^verbatim>\<open>mean\<close> of a column: the sum over the count, \<^verbatim>\<open>NaN\<close> for a column without rows.\<close>

definition mean :: "rat list \<Rightarrow> rat option" where
  "mean xs = (if xs = [] then None else Some (sum_list xs / of_nat (length xs)))"

text \<open>
  \<^verbatim>\<open>groupby(keys).agg({'Price': 'mean'}).reset_index()\<close>: rows with a missing key are
  dropped, the groups come in ascending order of their key, and each group carries the
  mean of its prices.
\<close>

definition groupby_mean ::
  "('r \<Rightarrow> 'k::linorder option) \<Rightarrow> ('r \<Rightarrow> rat) \<Rightarrow> 'r list \<Rightarrow> ('k \<times> rat option) list" where
  "groupby_mean key val df =
     map (\<lambda>k. (k, mean (map val (filter (\<lambda>r. key r = Some k) df))))
       (sort (remdups (List.map_filter key df)))"

text \<open>Multiplying a column by a number, and rounding it: a missing value stays missing.\<close>

definition col_mul :: "rat option \<Rightarrow> rat \<Rightarrow> rat option" where
  "col_mul v k = map_option (\<lambda>x. x * k) v"

text \<open>Rounding to the nearest integer, a tie going to the even one.\<close>

definition rint :: "rat \<Rightarrow> int" where
  "rint x =
     (let f = \<lfloor>x\<rfloor>; r = x - of_int f
      in if r < 1 / 2 then f else if 1 / 2 < r then f + 1 else if even f then f else f + 1)"

definition round_col :: "rat option \<Rightarrow> nat \<Rightarrow> rat option" where
  "round_col v d = map_option (\<lambda>x. of_int (rint (x * 10 ^ d)) / 10 ^ d) v"

subsection \<open>Numbers as text\<close>

definition digit :: "nat \<Rightarrow> char" where
  "digit d = ''0123456789'' ! (d mod 10)"

fun str_nat :: "nat \<Rightarrow> string" where
  "str_nat n = (if n < 10 then [digit n] else str_nat (n div 10) @ [digit n])"

declare str_nat.simps [simp del]

text \<open>The digits after the decimal point of \<open>r\<close> (with \<open>0 \<le> r < 1\<close>), at most \<open>n\<close> of them.\<close>

fun frac_digits :: "nat \<Rightarrow> rat \<Rightarrow> string" where
  "frac_digits 0 r = []"
| "frac_digits (Suc n) r =
     (if r = 0 then []
      else digit (nat \<lfloor>r * 10\<rfloor>) # frac_digits n (r * 10 - of_int \<lfloor>r * 10\<rfloor>))"

text \<open>
  \<^verbatim>\<open>astype(str)\<close> on a column of floats: the shortest decimal numeral of the value, with at
  least one digit after the point; \<^verbatim>\<open>nan\<close> for a missing value.
\<close>

definition astype_str :: "rat option \<Rightarrow> string" where
  "astype_str v =
     (case v of
        None \<Rightarrow> ''nan''
      | Some x \<Rightarrow>
          (let a = \<bar>x\<bar>; fs = frac_digits 17 (a - of_int \<lfloor>a\<rfloor>)
           in (if x < 0 then ''-'' else []) @ str_nat (nat \<lfloor>a\<rfloor>) @ ''.'' @
              (if fs = [] then ''0'' else fs)))"

text \<open>The format \<^verbatim>\<open>:.2f\<close> of line 96: two digits after the point, always.\<close>

definition format_2f :: "rat option \<Rightarrow> string" where
  "format_2f v =
     (case v of
        None \<Rightarrow> ''nan''
      | Some x \<Rightarrow>
          (let n = nat (rint (\<bar>x\<bar> * 100))
           in (if x < 0 then ''-'' else []) @ str_nat (n div 100) @ ''.'' @
              [digit (n div 10), digit n]))"

subsection \<open>The table behind the map (lines 56-61)\<close>

definition group_key :: "car_geo \<Rightarrow> (string \<times> rat \<times> rat) option" where
  "group_key r =
     (case (Latitude r, Longitude r) of
        (Some la, Some lo) \<Rightarrow> Some (Location r, la, lo)
      | _ \<Rightarrow> None)"

definition city_avg_row :: "(string \<times> rat \<times> rat) \<times> rat option \<Rightarrow> city_avg" where
  "city_avg_row g =
     (case g of ((loc, la, lo), avg) \<Rightarrow>
        \<lparr>city_avg.Location = loc, city_avg.Latitude = la, city_avg.Longitude = lo,
         city_avg.Average_Price = avg,
         Price_in_thousands = round_col (col_mul avg 100) 1,
         city_avg.Price = astype_str (round_col (col_mul avg 100) 1) @ ''K''\<rparr>)"

definition df_avg_price_by_city :: "listing list \<Rightarrow> city_avg list" where
  "df_avg_price_by_city raw = map city_avg_row (groupby_mean group_key Price (df_cars raw))"

subsection \<open>The selection of brand, model and year (lines 85-96)\<close>

text \<open>\<^verbatim>\<open>unique()\<close>: the distinct values of a column in order of first appearance.\<close>

fun unique :: "'a list \<Rightarrow> 'a list" where
  "unique [] = []"
| "unique (x # xs) = x # filter (\<lambda>y. y \<noteq> x) (unique xs)"

text \<open>
  \<^verbatim>\<open>==\<close> between a column value and the selected value: a missing value on either side
  (\<^verbatim>\<open>NaN\<close> in the column, \<^verbatim>\<open>NaN\<close> or \<^verbatim>\<open>None\<close> selected) compares unequal.
\<close>

fun col_eq :: "'a option \<Rightarrow> 'a option \<Rightarrow> bool" where
  "col_eq (Some a) (Some b) = (a = b)"
| "col_eq _ _ = False"

text \<open>
  \<^verbatim>\<open>st.selectbox(label, options)\<close>: the option the user picked, \<open>i\<close> being its position
  in the list; \<^verbatim>\<open>None\<close> when there is no option to pick.
\<close>

definition selectbox :: "'a option list \<Rightarrow> nat \<Rightarrow> 'a option" where
  "selectbox options i = (if i < length options then options ! i else None)"

definition Brand_options :: "car list \<Rightarrow> string option list" where
  "Brand_options df = unique (map Brand df)"

definition Model_options :: "car list \<Rightarrow> string option \<Rightarrow> string option list" where
  "Model_options df selected_Brand =
     unique (map Model (filter (\<lambda>c. col_eq (Brand c) selected_Brand) df))"

definition Year_options :: "car list \<Rightarrow> string option \<Rightarrow> string option \<Rightarrow> int option list" where
  "Year_options df selected_Brand selected_Model =
     unique (map (\<lambda>c. Some (Year c))
       (filter (\<lambda>c. col_eq (Brand c) selected_Brand \<and> col_eq (Model c) selected_Model) df))"

definition cars_df_filtered ::
  "car list \<Rightarrow> string option \<Rightarrow> string option \<Rightarrow> int option \<Rightarrow> car list" where
  "cars_df_filtered df selected_Brand selected_Model selected_Year =
     filter (\<lambda>c. col_eq (Brand c) selected_Brand \<and> col_eq (Model c) selected_Model \<and>
                 col_eq (Some (Year c)) selected_Year) df"

definition average_price :: "car list \<Rightarrow> rat option" where
  "average_price filtered = mean (map Price filtered)"

definition average_price_message :: "rat option \<Rightarrow> string" where
  "average_price_message avg =
     ''**The average price of the selected car is: '' @ format_2f (col_mul avg 100000) @
     '' INR**''"

subsection \<open>The table behind the bar chart and the five dearest cities (lines 100-108)\<close>

definition city_avg_new_row :: "string \<times> rat option \<Rightarrow> city_avg_new" where
  "city_avg_new_row g =
     (case g of (loc, avg) \<Rightarrow>
        \<lparr>city_avg_new.Location = loc, city_avg_new.Average_Price = avg,
         Formatted_Price = round_col (col_mul avg 100) 2,
         Price_K = astype_str (round_col (col_mul avg 100) 2) @ ''K''\<rparr>)"


text \<open>
  \<^verbatim>\<open>nlargest(n, 'Average_Price')\<close>: the rows with a value are ordered by the negated
  value with a stable sort, the rows without a value follow in their order, and the
  first \<open>n\<close> rows are kept.
\<close>

definition nlargest :: "nat \<Rightarrow> city_avg_new list \<Rightarrow> city_avg_new list" where
  "nlargest n df =
     take n
       (map snd (sort_key (\<lambda>(v, r). - v)
          (List.map_filter (\<lambda>r. map_option (\<lambda>v. (v, r)) (city_avg_new.Average_Price r)) df))
        @ filter (\<lambda>r. city_avg_new.Average_Price r = None) df)"


section \<open>Brand and model\<close>

lemma split_from_token:
  "\<forall>c\<in>set t. \<not> isspace c \<Longrightarrow> split_from cur (t @ s) = split_from (cur @ t) s"
  by (induction t arbitrary: cur) auto

lemma split_from_spaces:
  "\<forall>c\<in>set ws. isspace c \<Longrightarrow> split_from [] (ws @ s) = split_from [] s"
  by (induction ws) auto

lemma split_from_end_token:
  "cur \<noteq> [] \<Longrightarrow> ws \<noteq> [] \<Longrightarrow> \<forall>c\<in>set ws. isspace c \<Longrightarrow>
   split_from cur (ws @ s) = cur # split_from [] s"
  by (cases ws) (auto simp: split_from_spaces)

text \<open>A token between whitespace is the next element of the split.\<close>

lemma str_split_token:
  assumes "\<forall>c\<in>set ws. isspace c" "t \<noteq> []" "\<forall>c\<in>set t. \<not> isspace c"
    "ws' \<noteq> []" "\<forall>c\<in>set ws'. isspace c"
  shows "split_from [] (ws @ t @ ws' @ s) = t # split_from [] s"
  using assms by (simp add: split_from_spaces split_from_token split_from_end_token)

lemma str_split_last_token:
  assumes "\<forall>c\<in>set ws. isspace c" "t \<noteq> []" "\<forall>c\<in>set t. \<not> isspace c"
    "rest = [] \<or> isspace (hd rest)"
  shows "\<exists>more. split_from [] (ws @ t @ rest) = t # more"
proof (cases rest)
  case Nil
  with assms show ?thesis
    using split_from_token[of t "[]" "[]"] by (simp add: split_from_spaces)
next
  case (Cons c cs)
  with assms have "split_from [] (ws @ t @ rest) = t # split_from [] cs"
    using split_from_token[of t "[]" "c # cs"] by (simp add: split_from_spaces)
  then show ?thesis by blast
qed

text \<open>
  C8. A name that starts with three tokens: optional whitespace \<open>ws0\<close>, the token \<open>t1\<close>,
  whitespace \<open>ws1\<close>, the token \<open>t2\<close>, whitespace \<open>ws2\<close>, the token \<open>t3\<close>, and then either
  nothing or more text that starts with whitespace. The split of the name starts with
  exactly these three tokens, the brand is the first of them, and the model is the
  second and the third joined by one space.
\<close>

theorem brand_model_of_three_tokens:
  assumes "\<forall>c\<in>set ws0. isspace c"
    and "t1 \<noteq> []" "\<forall>c\<in>set t1. \<not> isspace c"
    and "ws1 \<noteq> []" "\<forall>c\<in>set ws1. isspace c"
    and "t2 \<noteq> []" "\<forall>c\<in>set t2. \<not> isspace c"
    and "ws2 \<noteq> []" "\<forall>c\<in>set ws2. isspace c"
    and "t3 \<noteq> []" "\<forall>c\<in>set t3. \<not> isspace c"
    and "rest = [] \<or> isspace (hd rest)"
    and "Name l = ws0 @ t1 @ ws1 @ t2 @ ws2 @ t3 @ rest"
  shows "take 3 (str_split (Name l)) = [t1, t2, t3] \<and>
         Brand (add_brand_model l) = Some t1 \<and>
         Model (add_brand_model l) = Some (t2 @ '' '' @ t3)"
proof -
  obtain more where m: "split_from [] ([] @ t3 @ rest) = t3 # more"
    using str_split_last_token[of "[]" t3 rest] assms by auto
  have "str_split (Name l) = t1 # split_from [] ([] @ t2 @ ws2 @ t3 @ rest)"
    using assms str_split_token[of ws0 t1 ws1 "t2 @ ws2 @ t3 @ rest"]
    by (simp add: str_split_def)
  also have "split_from [] ([] @ t2 @ ws2 @ t3 @ rest) = t2 # split_from [] ([] @ t3 @ rest)"
    using assms str_split_token[of "[]" t2 ws2 "t3 @ rest"] by simp
  finally have "str_split (Name l) = t1 # t2 # t3 # more" using m by simp
  then show ?thesis
    by (simp add: add_brand_model_def brand_of_def model_of_def str_get_def)
qed

theorem brand_model_of_three_tokens_witness:
  "take 3 (str_split ''Maruti Wagon R LXI CNG'') = [''Maruti'', ''Wagon'', ''R''] \<and>
   Brand (add_brand_model \<lparr>Name = ''Maruti Wagon R LXI CNG'', Location = ''Mumbai'',
     Year = 2010, Price = 7 / 4\<rparr>) = Some ''Maruti'' \<and>
   Model (add_brand_model \<lparr>Name = ''Maruti Wagon R LXI CNG'', Location = ''Mumbai'',
     Year = 2010, Price = 7 / 4\<rparr>) = Some ''Wagon R''"
  using brand_model_of_three_tokens [of "[]" "''Maruti''" "'' ''" "''Wagon''" "'' ''" "''R''"
      "'' LXI CNG''" "\<lparr>Name = ''Maruti Wagon R LXI CNG'', Location = ''Mumbai'',
        Year = 2010, Price = 7 / 4\<rparr>"]
  by (simp add: isspace_def)




section \<open>The selection and its average\<close>

lemma col_eq_Some [simp]: "col_eq x (Some b) \<longleftrightarrow> x = Some b"
  by (cases x) auto

lemma col_eq_None [simp]: "\<not> col_eq x None"
  by (cases x) auto

lemma set_unique [simp]: "set (unique xs) = set xs"
  by (induction xs) auto

lemma distinct_unique [simp]: "distinct (unique xs)"
  by (induction xs) auto

text \<open>
  C7. When no listing matches the selected brand, model and year, the average price is
  the missing value \<^verbatim>\<open>NaN\<close>, not zero or another number, and the message of line 96
  prints it as \<^verbatim>\<open>nan\<close>.
\<close>

theorem empty_selection_average_nan:
  assumes "cars_df_filtered df selected_Brand selected_Model selected_Year = []"
  shows "average_price (cars_df_filtered df selected_Brand selected_Model selected_Year) = None \<and>
         average_price_message
           (average_price (cars_df_filtered df selected_Brand selected_Model selected_Year)) =
         ''**The average price of the selected car is: nan INR**''"
  using assms
  by (simp add: average_price_def mean_def average_price_message_def col_mul_def format_2f_def)

theorem empty_selection_average_nan_witness:
  "cars_df_filtered (cars_df
     [\<lparr>Name = ''Maruti Wagon R LXI'', Location = ''Mumbai'', Year = 2015, Price = 9 / 2\<rparr>])
     (Some ''Maruti'') (Some ''Wagon R'') (Some 2016) = [] \<and>
   average_price (cars_df_filtered (cars_df
     [\<lparr>Name = ''Maruti Wagon R LXI'', Location = ''Mumbai'', Year = 2015, Price = 9 / 2\<rparr>])
     (Some ''Maruti'') (Some ''Wagon R'') (Some 2016)) = None"
  using empty_selection_average_nan [of "cars_df
     [\<lparr>Name = ''Maruti Wagon R LXI'', Location = ''Mumbai'', Year = 2015, Price = 9 / 2\<rparr>]"
     "Some ''Maruti''" "Some ''Wagon R''" "Some 2016"]
  by (simp add: cars_df_filtered_def cars_df_def add_brand_model_def)



text \<open>
  C6. The models offered for a brand \<open>b\<close> are exactly the models of the listings of that
  brand, each once; the years offered for \<open>b\<close> and a model \<open>m\<close> are exactly the years of
  the listings of that brand and model, each once. So a model picked in the second box
  is the model of a listing of the brand, and a year picked in the third box is the year
  of a listing of the brand and model.
\<close>

theorem selection_domains:
  "set (Model_options df (Some b)) = Model ` {c \<in> set df. Brand c = Some b} \<and>
   distinct (Model_options df (Some b)) \<and>
   set (Year_options df (Some b) (Some m)) =
     (\<lambda>c. Some (Year c)) ` {c \<in> set df. Brand c = Some b \<and> Model c = Some m} \<and>
   distinct (Year_options df (Some b) (Some m)) \<and>
   (\<forall>i m'. selectbox (Model_options df (Some b)) i = Some m' \<longrightarrow>
      (\<exists>c\<in>set df. Brand c = Some b \<and> Model c = Some m')) \<and>
   (\<forall>i y. selectbox (Year_options df (Some b) (Some m)) i = Some y \<longrightarrow>
      (\<exists>c\<in>set df. Brand c = Some b \<and> Model c = Some m \<and> Year c = y))"
proof -
  have models: "set (Model_options df (Some b)) = Model ` {c \<in> set df. Brand c = Some b}"
    by (auto simp: Model_options_def)
  have years: "set (Year_options df (Some b) (Some m)) =
     (\<lambda>c. Some (Year c)) ` {c \<in> set df. Brand c = Some b \<and> Model c = Some m}"
    by (auto simp: Year_options_def)
  have picked: "Some x \<in> set options" if "selectbox options i = Some x"
    for options :: "'a option list" and i x
  proof -
    from that have "i < length options" and "options ! i = Some x"
      by (auto simp: selectbox_def split: if_splits)
    then show ?thesis by (metis nth_mem)
  qed
  have "\<exists>c\<in>set df. Brand c = Some b \<and> Model c = Some m'"
    if "selectbox (Model_options df (Some b)) i = Some m'" for i m'
    using picked [OF that] models by auto
  moreover have "\<exists>c\<in>set df. Brand c = Some b \<and> Model c = Some m \<and> Year c = y"
    if "selectbox (Year_options df (Some b) (Some m)) i = Some y" for i y
    using picked [OF that] years by auto
  ultimately show ?thesis
    using models years by (simp add: Model_options_def Year_options_def)
qed

theorem selection_domains_witness:
  "Model_options (cars_df
     [\<lparr>Name = ''Maruti Wagon R LXI'', Location = ''Mumbai'', Year = 2015, Price = 9 / 2\<rparr>,
      \<lparr>Name = ''Honda City 1.5 V'', Location = ''Pune'', Year = 2012, Price = 5\<rparr>,
      \<lparr>Name = ''Maruti Swift Dzire VDI'', Location = ''Pune'', Year = 2014, Price = 6\<rparr>,
      \<lparr>Name = ''Maruti Wagon R VXI'', Location = ''Delhi'', Year = 2013, Price = 4\<rparr>])
     (Some ''Maruti'') = [Some ''Wagon R'', Some ''Swift Dzire''] \<and>
   selectbox (Model_options (cars_df
     [\<lparr>Name = ''Maruti Wagon R LXI'', Location = ''Mumbai'', Year = 2015, Price = 9 / 2\<rparr>,
      \<lparr>Name = ''Honda City 1.5 V'', Location = ''Pune'', Year = 2012, Price = 5\<rparr>,
      \<lparr>Name = ''Maruti Swift Dzire VDI'', Location = ''Pune'', Year = 2014, Price = 6\<rparr>,
      \<lparr>Name = ''Maruti Wagon R VXI'', Location = ''Delhi'', Year = 2013, Price = 4\<rparr>])
     (Some ''Maruti'')) 0 = Some ''Wagon R'' \<and>
   Year_options (cars_df
     [\<lparr>Name = ''Maruti Wagon R LXI'', Location = ''Mumbai'', Year = 2015, Price = 9 / 2\<rparr>,
      \<lparr>Name = ''Honda City 1.5 V'', Location = ''Pune'', Year = 2012, Price = 5\<rparr>,
      \<lparr>Name = ''Maruti Swift Dzire VDI'', Location = ''Pune'', Year = 2014, Price = 6\<rparr>,
      \<lparr>Name = ''Maruti Wagon R VXI'', Location = ''Delhi'', Year = 2013, Price = 4\<rparr>])
     (Some ''Maruti'') (Some ''Wagon R'') = [Some 2015, Some 2013] \<and>
   (\<exists>c\<in>set (cars_df
     [\<lparr>Name = ''Maruti Wagon R LXI'', Location = ''Mumbai'', Year = 2015, Price = 9 / 2\<rparr>,
      \<lparr>Name = ''Honda City 1.5 V'', Location = ''Pune'', Year = 2012, Price = 5\<rparr>,
      \<lparr>Name = ''Maruti Swift Dzire VDI'', Location = ''Pune'', Year = 2014, Price = 6\<rparr>,
      \<lparr>Name = ''Maruti Wagon R VXI'', Location = ''Delhi'', Year = 2013, Price = 4\<rparr>]).
      Brand c = Some ''Maruti'' \<and> Model c = Some ''Wagon R'')"
  using selection_domains [of "cars_df
     [\<lparr>Name = ''Maruti Wagon R LXI'', Location = ''Mumbai'', Year = 2015, Price = 9 / 2\<rparr>,
      \<lparr>Name = ''Honda City 1.5 V'', Location = ''Pune'', Year = 2012, Price = 5\<rparr>,
      \<lparr>Name = ''Maruti Swift Dzire VDI'', Location = ''Pune'', Year = 2014, Price = 6\<rparr>,
      \<lparr>Name = ''Maruti Wagon R VXI'', Location = ''Delhi'', Year = 2013, Price = 4\<rparr>]"
     "''Maruti''" "''Wagon R''"]
  by (simp add: Model_options_def Year_options_def selectbox_def cars_df_def
      add_brand_model_def brand_of_def model_of_def str_get_def str_split_def isspace_def)

section \<open>Grouped averages\<close>

lemma set_map_filter: "set (List.map_filter f xs) = {y. \<exists>x\<in>set xs. f x = Some y}"
  by (induction xs) (auto simp: List.map_filter_simps split: option.splits)







lemma groupby_mean_in:
  "(k, a) \<in> set (groupby_mean key val df) \<longleftrightarrow>
   (\<exists>r\<in>set df. key r = Some k) \<and> a = mean (map val (filter (\<lambda>r. key r = Some k) df))"
  by (auto simp: groupby_mean_def set_map_filter)


section \<open>The join and the table behind the map\<close>

lemma filter_key_distinct:
  "distinct (map fst right) \<Longrightarrow>
   filter (\<lambda>(loc, la, lo). loc = k) right =
     (case map_of right k of None \<Rightarrow> [] | Some (la, lo) \<Rightarrow> [(k, la, lo)])"
proof (induction right)
  case Nil
  then show ?case by simp
next
  case (Cons p right)
  obtain loc la lo where p: "p = (loc, la, lo)" by (cases p) auto
  show ?case
  proof (cases "loc = k")
    case True
    with Cons p have "map_of right k = None"
      by (simp add: map_of_eq_None_iff)
    with Cons p True show ?thesis by simp
  next
    case False
    with Cons p show ?thesis by simp
  qed
qed

text \<open>With one row for each location in the right table, the join is row by row.\<close>

lemma merge_left_distinct:
  assumes "distinct (map fst right)"
  shows "merge_left left right =
     map (\<lambda>c. case map_of right (Location c) of
                 None \<Rightarrow> with_coordinates c None None
               | Some (la, lo) \<Rightarrow> with_coordinates c (Some la) (Some lo)) left"
  by (induction left)
     (auto simp: merge_left_def filter_key_distinct [OF assms] split: option.splits)

lemma distinct_data_cordinates: "distinct (map fst data_cordinates)"
  by (simp add: data_cordinates_def)

lemma df_cars_rows:
  "df_cars raw =
     map (\<lambda>l. case map_of data_cordinates (Location l) of
                 None \<Rightarrow> with_coordinates (add_brand_model l) None None
               | Some (la, lo) \<Rightarrow> with_coordinates (add_brand_model l) (Some la) (Some lo)) raw"
  by (simp add: df_cars_def cars_df_def merge_left_distinct [OF distinct_data_cordinates]
      comp_def add_brand_model_def)

lemma truncate_with_coordinates: "car.truncate (with_coordinates c la lo) = c"
  by (simp add: car.truncate_def with_coordinates_def)

lemma in_data_cordinates:
  "(loc, la, lo) \<in> set data_cordinates \<longleftrightarrow> map_of data_cordinates loc = Some (la, lo)"
  using distinct_data_cordinates by simp

lemma group_key_df_cars:
  "map group_key (df_cars raw) =
     map (\<lambda>l. case map_of data_cordinates (Location l) of
                 None \<Rightarrow> None | Some (la, lo) \<Rightarrow> Some (Location l, la, lo)) raw"
  by (simp add: df_cars_rows group_key_def with_coordinates_def add_brand_model_def comp_def
      split: option.splits)


lemma group_key_iff:
  "r \<in> set (df_cars raw) \<Longrightarrow>
   group_key r = Some (loc, la, lo) \<longleftrightarrow>
     Location r = loc \<and> (loc, la, lo) \<in> set data_cordinates"
  by (auto simp: df_cars_rows group_key_def with_coordinates_def add_brand_model_def
      in_data_cordinates split: option.splits)


lemma locations_of_df_cars: "map Location (df_cars raw) = map Location raw"
  by (simp add: df_cars_rows with_coordinates_def add_brand_model_def comp_def
      split: option.splits)

text \<open>The map table has the locations of the data that the coordinate table lists.\<close>

lemma map_table_locations:
  "city_avg.Location ` set (df_avg_price_by_city raw) =
   Location ` set raw \<inter> fst ` set data_cordinates" (is "?L = ?R")
proof (rule set_eqI)
  fix loc
  have "loc \<in> ?L \<longleftrightarrow>
        (\<exists>la lo a. ((loc, la, lo), a) \<in> set (groupby_mean group_key Price (df_cars raw)))"
    by (force simp: df_avg_price_by_city_def city_avg_row_def image_iff split: prod.splits)
  also have "\<dots> \<longleftrightarrow> (\<exists>la lo. \<exists>r\<in>set (df_cars raw). group_key r = Some (loc, la, lo))"
    by (auto simp: groupby_mean_in)
  also have "\<dots> \<longleftrightarrow>
        (\<exists>la lo. \<exists>r\<in>set (df_cars raw). Location r = loc \<and> (loc, la, lo) \<in> set data_cordinates)"
    by (auto simp: group_key_iff)
  also have "\<dots> \<longleftrightarrow> loc \<in> Location ` set (df_cars raw) \<and> loc \<in> fst ` set data_cordinates"
    by (force simp: image_iff)
  also have "Location ` set (df_cars raw) = Location ` set raw"
    using locations_of_df_cars [of raw] by (metis set_map)
  finally show "loc \<in> ?L \<longleftrightarrow> loc \<in> ?R" by simp
qed

text \<open>
  C5. The join keeps every listing, once and in order: dropping the coordinate columns
  from \<^verbatim>\<open>df_cars\<close> gives \<^verbatim>\<open>cars_df\<close> back. A listing whose location is not in the
  coordinate table has both coordinates missing, and a listing whose location is in the
  table has the coordinates of the table. The table behind the map, which groups by
  location and coordinates, has rows for exactly the locations of the data that are in
  the coordinate table: the listings without coordinates are left out of it, and nothing
  fails.
\<close>

theorem left_join_keeps_every_listing:
  "map car.truncate (df_cars raw) = cars_df raw \<and>
   (\<forall>r\<in>set (df_cars raw). Location r \<notin> fst ` set data_cordinates \<longrightarrow>
      Latitude r = None \<and> Longitude r = None) \<and>
   (\<forall>r\<in>set (df_cars raw). \<forall>la lo. (Location r, la, lo) \<in> set data_cordinates \<longrightarrow>
      Latitude r = Some la \<and> Longitude r = Some lo) \<and>
   city_avg.Location ` set (df_avg_price_by_city raw) =
     Location ` set raw \<inter> fst ` set data_cordinates"
proof -
  have a: "map car.truncate (df_cars raw) = cars_df raw"
    by (simp add: df_cars_rows cars_df_def comp_def truncate_with_coordinates
        split: option.splits)
  have b: "Latitude r = None \<and> Longitude r = None"
    if "r \<in> set (df_cars raw)" "Location r \<notin> fst ` set data_cordinates" for r
  proof -
    have "map_of data_cordinates (Location r) = None"
      using that(2) by (simp add: map_of_eq_None_iff)
    with that(1) show ?thesis
      by (auto simp: df_cars_rows with_coordinates_def add_brand_model_def split: option.splits)
  qed
  have c: "Latitude r = Some la \<and> Longitude r = Some lo"
    if "r \<in> set (df_cars raw)" "(Location r, la, lo) \<in> set data_cordinates" for r la lo
    using that
    by (auto simp: df_cars_rows with_coordinates_def add_brand_model_def in_data_cordinates
        split: option.splits)
  show ?thesis using a b c map_table_locations [of raw] by blast
qed

theorem left_join_keeps_every_listing_witness:
  "map car.truncate (df_cars
     [\<lparr>Name = ''Honda City 1.5 V'', Location = ''Goa'', Year = 2012, Price = 5\<rparr>,
      \<lparr>Name = ''Maruti Wagon R LXI'', Location = ''Mumbai'', Year = 2015, Price = 4\<rparr>]) =
   cars_df
     [\<lparr>Name = ''Honda City 1.5 V'', Location = ''Goa'', Year = 2012, Price = 5\<rparr>,
      \<lparr>Name = ''Maruti Wagon R LXI'', Location = ''Mumbai'', Year = 2015, Price = 4\<rparr>] \<and>
   with_coordinates (add_brand_model
     \<lparr>Name = ''Honda City 1.5 V'', Location = ''Goa'', Year = 2012, Price = 5\<rparr>) None None
   \<in> set (df_cars
     [\<lparr>Name = ''Honda City 1.5 V'', Location = ''Goa'', Year = 2012, Price = 5\<rparr>,
      \<lparr>Name = ''Maruti Wagon R LXI'', Location = ''Mumbai'', Year = 2015, Price = 4\<rparr>]) \<and>
   ''Goa'' \<notin> fst ` set data_cordinates \<and>
   map city_avg.Location (df_avg_price_by_city
     [\<lparr>Name = ''Honda City 1.5 V'', Location = ''Goa'', Year = 2012, Price = 5\<rparr>,
      \<lparr>Name = ''Maruti Wagon R LXI'', Location = ''Mumbai'', Year = 2015, Price = 4\<rparr>]) =
   [''Mumbai'']"
proof -
  let ?raw = "[\<lparr>Name = ''Honda City 1.5 V'', Location = ''Goa'', Year = 2012, Price = 5\<rparr>,
      \<lparr>Name = ''Maruti Wagon R LXI'', Location = ''Mumbai'', Year = 2015, Price = 4\<rparr>]"
  have rows: "df_cars ?raw =
    [with_coordinates (add_brand_model
       \<lparr>Name = ''Honda City 1.5 V'', Location = ''Goa'', Year = 2012, Price = 5\<rparr>) None None,
     with_coordinates (add_brand_model
       \<lparr>Name = ''Maruti Wagon R LXI'', Location = ''Mumbai'', Year = 2015, Price = 4\<rparr>)
       (Some 19.0760) (Some 72.8777)]"
    by (simp add: df_cars_def cars_df_def merge_left_def data_cordinates_def
        add_brand_model_def)
  have goa: "''Goa'' \<notin> fst ` set data_cordinates"
    by (simp add: data_cordinates_def)
  have "map city_avg.Location (df_avg_price_by_city ?raw) = [''Mumbai'']"
    by (simp add: df_avg_price_by_city_def groupby_mean_def rows group_key_def
        with_coordinates_def add_brand_model_def List.map_filter_simps city_avg_row_def)
  then show ?thesis
    using left_join_keeps_every_listing [of ?raw] goa by (simp add: rows)
qed





section \<open>The table behind the bar chart\<close>


lemma Average_Price_city_avg_new_row:
  "city_avg_new.Average_Price (city_avg_new_row g) = snd g"
  by (cases g) (auto simp: city_avg_new_row_def)



section \<open>The five dearest cities\<close>



lemma present_pairs:
  "(v, r) \<in> set (List.map_filter (\<lambda>r. map_option (\<lambda>v. (v, r)) (city_avg_new.Average_Price r)) df)
   \<Longrightarrow> city_avg_new.Average_Price r = Some v"
  by (auto simp: set_map_filter)

lemma filter_present:
  "map snd (filter (\<lambda>(v, r). v = k)
     (List.map_filter (\<lambda>r. map_option (\<lambda>v. (v, r)) (city_avg_new.Average_Price r)) df)) =
   filter (\<lambda>r. city_avg_new.Average_Price r = Some k) df"
  by (induction df) (auto simp: List.map_filter_simps split: option.splits)

text \<open>
  The stable sort keeps the rows of one average in their order, so the rows of one
  average in the result are a prefix of the rows of that average in the input.
\<close>

lemma filter_some_sorted:
  fixes ps :: "(rat \<times> city_avg_new) list"
  assumes "\<And>v r. (v, r) \<in> set ps \<Longrightarrow> city_avg_new.Average_Price r = Some v"
  shows "filter (\<lambda>r. city_avg_new.Average_Price r = a) (map snd (sort_key (\<lambda>(v, r). - v) ps)) =
         (case a of None \<Rightarrow> []
          | Some k \<Rightarrow> map snd (filter (\<lambda>(v, r). v = k) ps))"
proof -
  let ?s = "sort_key (\<lambda>(v, r). - v) ps"
  have in_s: "city_avg_new.Average_Price r = Some v" if "(v, r) \<in> set ?s" for v r
    using that assms by simp
  show ?thesis
  proof (cases a)
    case None
    have "filter (\<lambda>p. city_avg_new.Average_Price (snd p) = None) ?s = []"
      using in_s by (auto simp: filter_empty_conv)
    then show ?thesis using None by (simp add: filter_map comp_def)
  next
    case (Some k)
    have "filter (\<lambda>p. city_avg_new.Average_Price (snd p) = Some k) ?s =
          filter (\<lambda>p. (\<lambda>(v, r). - v) p = - k) ?s"
      using in_s by (intro filter_cong refl) auto
    also have "\<dots> = filter (\<lambda>p. (\<lambda>(v, r). - v) p = - k) ps"
      by (rule sort_key_stable)
    also have "\<dots> = filter (\<lambda>(v, r). v = k) ps"
      by (intro filter_cong refl) auto
    finally show ?thesis using Some by (simp add: filter_map comp_def)
  qed
qed

lemma nlargest_filter_prefix:
  "prefix (filter (\<lambda>r. city_avg_new.Average_Price r = a) (nlargest n df))
          (filter (\<lambda>r. city_avg_new.Average_Price r = a) df)"
proof -
  let ?ps = "List.map_filter (\<lambda>r. map_option (\<lambda>v. (v, r)) (city_avg_new.Average_Price r)) df"
  let ?all = "map snd (sort_key (\<lambda>(v, r). - v) ?ps) @
              filter (\<lambda>r. city_avg_new.Average_Price r = None) df"
  have "filter (\<lambda>r. city_avg_new.Average_Price r = a) ?all =
        filter (\<lambda>r. city_avg_new.Average_Price r = a) df"
  proof (cases a)
    case None
    then show ?thesis
      using filter_some_sorted [of ?ps None] present_pairs [of _ _ df]
      by (simp cong: conj_cong)
  next
    case (Some k)
    then show ?thesis
      using filter_some_sorted [of ?ps "Some k"] present_pairs [of _ _ df]
      by (auto simp add: filter_present filter_empty_conv)
  qed
  moreover have "prefix (filter (\<lambda>r. city_avg_new.Average_Price r = a) (take n ?all))
                        (filter (\<lambda>r. city_avg_new.Average_Price r = a) ?all)"
    by (intro filter_mono_prefix take_is_prefix)
  ultimately show ?thesis by (simp add: nlargest_def)
qed

text \<open>Two positions of a list, as a subsequence of it, and back.\<close>

lemma subseq_two_nth:
  assumes "i < j" "j < length xs"
  shows "subseq [xs ! i, xs ! j] xs"
proof -
  have "xs = take i xs @ xs ! i # drop (Suc i) xs"
    using assms by (simp add: id_take_nth_drop)
  moreover have "drop (Suc i) xs = take (j - Suc i) (drop (Suc i) xs) @
        xs ! j # drop (Suc (j - Suc i)) (drop (Suc i) xs)"
    using assms id_take_nth_drop [of "j - Suc i" "drop (Suc i) xs"] by simp
  moreover have "subseq [xs ! i, xs ! j] (us @ xs ! i # vs @ xs ! j # ws)" for us vs ws
    by (intro list_emb_append2 subseq_Cons2) simp
  ultimately show ?thesis by metis
qed

lemma subseq_two_positions:
  assumes "subseq [x, y] zs"
  shows "\<exists>i j. i < j \<and> j < length zs \<and> zs ! i = x \<and> zs ! j = y"
proof -
  from list_emb_ConsD [OF assms] obtain us v vs where
    1: "zs = us @ v # vs" "x = v" "subseq [y] vs" by blast
  from list_emb_ConsD [OF 1(3)] obtain us' v' vs' where
    2: "vs = us' @ v' # vs'" "y = v'" by blast
  let ?i = "length us" and ?j = "length us + Suc (length us')"
  have "zs ! ?i = x" using 1 by simp
  moreover have "zs ! ?j = y" using 1 2 by (simp add: nth_append)
  moreover have "?i < ?j" "?j < length zs" using 1 2 by simp_all
  ultimately show ?thesis by blast
qed

text \<open>
  C9. Two rows of the ranking with the same average price, the first before the second,
  are rows of the input in that same order: ties keep the order of the input, and no
  second sort key is applied.
\<close>

theorem nlargest_keeps_input_order_of_ties:
  assumes "i < j" and "j < length (nlargest n df)"
    and "city_avg_new.Average_Price (nlargest n df ! i) =
         city_avg_new.Average_Price (nlargest n df ! j)"
  shows "\<exists>i' j'. i' < j' \<and> j' < length df \<and>
           df ! i' = nlargest n df ! i \<and> df ! j' = nlargest n df ! j"
proof -
  let ?out = "nlargest n df"
  let ?P = "\<lambda>r. city_avg_new.Average_Price r = city_avg_new.Average_Price (?out ! i)"
  have "subseq [?out ! i, ?out ! j] ?out"
    using assms(1,2) by (rule subseq_two_nth)
  then have "subseq (filter ?P [?out ! i, ?out ! j]) (filter ?P ?out)"
    by (rule subseq_filter)
  then have "subseq [?out ! i, ?out ! j] (filter ?P ?out)"
    using assms(3) by simp
  also have "subseq (filter ?P ?out) (filter ?P df)"
    using nlargest_filter_prefix by (rule prefix_imp_subseq)
  also have "subseq (filter ?P df) df" by simp
  finally show ?thesis by (rule subseq_two_positions)
qed


theorem nlargest_keeps_input_order_of_ties_witness:
  "nlargest 5 [city_avg_new_row (''Delhi'', Some 5), city_avg_new_row (''Mumbai'', Some 7),
               city_avg_new_row (''Pune'', Some 5)] =
     [city_avg_new_row (''Mumbai'', Some 7), city_avg_new_row (''Delhi'', Some 5),
      city_avg_new_row (''Pune'', Some 5)] \<and>
   (\<exists>i' j'. i' < j' \<and> j' < 3 \<and>
      [city_avg_new_row (''Delhi'', Some 5), city_avg_new_row (''Mumbai'', Some 7),
       city_avg_new_row (''Pune'', Some 5)] ! i' = city_avg_new_row (''Delhi'', Some 5) \<and>
      [city_avg_new_row (''Delhi'', Some 5), city_avg_new_row (''Mumbai'', Some 7),
       city_avg_new_row (''Pune'', Some 5)] ! j' = city_avg_new_row (''Pune'', Some 5))"
proof -
  let ?df = "[city_avg_new_row (''Delhi'', Some 5), city_avg_new_row (''Mumbai'', Some 7),
               city_avg_new_row (''Pune'', Some 5)]"
  have out: "nlargest 5 ?df =
     [city_avg_new_row (''Mumbai'', Some 7), city_avg_new_row (''Delhi'', Some 5),
      city_avg_new_row (''Pune'', Some 5)]"
    by (simp add: nlargest_def List.map_filter_simps Average_Price_city_avg_new_row)
  have "\<exists>i' j'. i' < j' \<and> j' < length ?df \<and>
          ?df ! i' = nlargest 5 ?df ! 1 \<and> ?df ! j' = nlargest 5 ?df ! 2"
    by (rule nlargest_keeps_input_order_of_ties)
       (simp_all add: out Average_Price_city_avg_new_row)
  then show ?thesis by (simp add: out numeral_3_eq_3)
qed









end
